theory Spec2Isabelle
  imports Complex_Main "HOL-Library.Multiset"
begin

section \<open>Data model (src/types/index.tsx)\<close>

text \<open>
  The application is a browser client of a hosted relational store. The rows of the three
  tables the components read and write are records; the union types of the source are
  datatypes; an optional field (\<open>approved_by?\<close>) is an \<open>option\<close>.

  Instants (\<open>new Date().toISOString()\<close>, \<open>Date.now()\<close>) are the number of milliseconds
  since the epoch they denote. The columns \<open>updated_at\<close> of a leave request and
  \<open>created_at\<close>, \<open>updated_at\<close> of a balance, which no component reads or writes, are
  left out.
\<close>

type_synonym timestamp = int

datatype user_role = admin | employee

datatype status = pending | approved | rejected

text \<open>
  The value of an \<open>input type="date"\<close>: the empty string, or the string of a date from
  0001-01-01 on, represented by the number of that day counted from 1970-01-01. The year
  has four digits up to 9999-12-31 (day 2932896) and more digits after it. The
  \<open>total_days\<close> of a request is a number; \<open>None\<close> is the \<open>null\<close> that a \<open>NaN\<close> is sent as.
\<close>

datatype date_string = NoDate | Day int

record Profile =
  pr_id :: string
  pr_email :: string
  pr_full_name :: string
  pr_avatar_url :: "string option"
  pr_phone :: "string option"
  pr_address :: "string option"
  pr_employee_id :: string
  pr_department :: "string option"
  pr_position :: "string option"
  pr_hire_date :: "string option"
  pr_salary :: "int option"
  pr_user_role :: user_role
  pr_manager_id :: "string option"
  pr_is_active :: bool
  pr_created_at :: timestamp
  pr_updated_at :: timestamp

record LeaveRequest =
  lr_id :: string
  lr_employee_id :: string
  lr_leave_type :: string
  lr_start_date :: date_string
  lr_end_date :: date_string
  lr_total_days :: "int option"
  lr_reason :: string
  lr_status :: status
  lr_approved_by :: "string option"
  lr_approved_at :: "timestamp option"
  lr_rejection_reason :: "string option"
  lr_created_at :: timestamp

record LeaveBalance =
  lb_id :: string
  lb_employee_id :: string
  lb_leave_type :: string
  lb_total_days :: int
  lb_used_days :: int
  lb_remaining_days :: int
  lb_year :: int

text \<open>The authenticated user of the identity provider, as far as the components read it.\<close>

record User =
  u_id :: string
  u_email :: "string option"
  u_full_name :: "string option"

text \<open>The three tables of the store.\<close>

record db =
  leave_requests :: "LeaveRequest list"
  leave_balances :: "LeaveBalance list"
  profiles :: "Profile list"

section \<open>The store client\<close>

text \<open>
  Every call of the store client resolves to \<open>{ data, error }\<close> or throws. What the store
  does with one call is an input of the model: it accepts the call, answers with an error
  object, or the client throws. A call that is not accepted leaves the tables as they are.
\<close>

record PgError =
  pg_code :: string
  pg_message :: "string option"

datatype fault = NoFault | Error PgError | Throws

text \<open>\<open>s.includes(t)\<close> and \<open>s.trim()\<close> of the source language.\<close>

fun js_includes :: "string \<Rightarrow> string \<Rightarrow> bool" where
  "js_includes [] t = (t = [])"
| "js_includes (c # s) t = (take (length t) (c # s) = t \<or> js_includes s t)"

text \<open>\<open>error.message?.includes(t)\<close>: an absent message gives \<open>undefined\<close>, which is falsy.\<close>

definition message_includes :: "PgError \<Rightarrow> string \<Rightarrow> bool" where
  "message_includes e t = (case pg_message e of None \<Rightarrow> False | Some m \<Rightarrow> js_includes m t)"

text \<open>
  White space and line terminators among the code units a \<open>char\<close> can hold: tab, line feed,
  vertical tab, form feed, carriage return, space and no-break space.
\<close>

definition is_whitespace :: "char \<Rightarrow> bool" where
  "is_whitespace c = (of_char c \<in> {9, 10, 11, 12, 13, 32, 160 :: nat})"

definition trim :: "string \<Rightarrow> string" where
  "trim s = rev (dropWhile is_whitespace (rev (dropWhile is_whitespace s)))"

text \<open>\<open>.update(values).eq("id", key)\<close> on a table: every row with that id gets the values.\<close>

definition update_eq_id :: "('r \<Rightarrow> string) \<Rightarrow> string \<Rightarrow> ('r \<Rightarrow> 'r) \<Rightarrow> 'r list \<Rightarrow> 'r list" where
  "update_eq_id ident key values rows = map (\<lambda>r. if ident r = key then values r else r) rows"

section \<open>LeaveRequestForm.tsx\<close>

record FormData =
  fd_leave_type :: string
  fd_start_date :: date_string
  fd_end_date :: date_string
  fd_reason :: string

text \<open>
  \<open>new Date(s).getTime()\<close>, with \<open>None\<close> for \<open>NaN\<close>. A string \<open>yyyy-mm-dd\<close> with a
  four-digit year is in the ISO format and denotes midnight UTC of that day. A date
  string with a longer year is not in that format, and what \<open>Date\<close> makes of it is up to
  the browser: \<open>legacy_parse\<close> is the instant the browser's parser gives for the day, or
  \<open>None\<close> for an invalid date; such a year is after the epoch, so the instant is a natural
  number. A \<open>Date\<close> holds no instant beyond 8640000000000000 milliseconds from the epoch.
\<close>

definition iso_format :: "int \<Rightarrow> bool" where
  "iso_format d = (- 719162 \<le> d \<and> d \<le> 2932896)"

definition TimeClip :: "int \<Rightarrow> int option" where
  "TimeClip t = (if \<bar>t\<bar> \<le> 8640000000000000 then Some t else None)"

definition getTime :: "(int \<Rightarrow> nat option) \<Rightarrow> int \<Rightarrow> int option" where
  "getTime legacy_parse d =
     (if iso_format d then Some (d * 86400000)
      else case legacy_parse d of None \<Rightarrow> None | Some t \<Rightarrow> TimeClip (int t))"

text \<open>
  \<open>Math.ceil(a / b)\<close> of two integers with \<open>b > 0\<close> is the rounded-up quotient. (The
  instants above lie between the year 0001 and the end of the range of \<open>Date\<close>, so the
  difference of two of them is below \<open>2^53\<close> and its quotient by the length of a day
  below \<open>2^27\<close>: neither the subtraction nor the rounding up is off.)
\<close>

definition Math_ceil_div :: "int \<Rightarrow> int \<Rightarrow> int" where
  "Math_ceil_div a b = - ((- a) div b)"

text \<open>\<open>calculateDays\<close>: arithmetic on a \<open>NaN\<close> gives \<open>NaN\<close>.\<close>

fun calculateDays :: "(int \<Rightarrow> nat option) \<Rightarrow> date_string \<Rightarrow> date_string \<Rightarrow> int option" where
  "calculateDays legacy_parse NoDate _ = Some 0"
| "calculateDays legacy_parse _ NoDate = Some 0"
| "calculateDays legacy_parse (Day s) (Day e) =
     (case (getTime legacy_parse s, getTime legacy_parse e) of
        (Some startTime, Some endTime) \<Rightarrow>
          (let timeDiff = endTime - startTime
           in Some (Math_ceil_div timeDiff (1000 * 3600 * 24) + 1))
      | _ \<Rightarrow> None)"

text \<open>
  The messages \<open>handleSubmit\<close> shows (each starts with an emoji in the source):
  \<^item> \<open>PleaseSignIn\<close>: "Error: Please sign out and sign back in"
  \<^item> \<open>EndBeforeStart\<close>: "End date must be after start date"
  \<^item> \<open>PermissionDenied\<close>: "Permission denied. Please contact administrator to fix database permissions."
  \<^item> \<open>RelationshipError\<close>: "Database relationship error. Please contact administrator."
  \<^item> \<open>TableNotFound\<close>: "Database table not found. Please contact administrator."
  \<^item> \<open>DatabaseError m\<close>: "Database error: " followed by the message of the error
  \<^item> \<open>UnexpectedError\<close>: "Unexpected error: ..."
  \<^item> \<open>Submitted\<close>: "Leave request submitted successfully!"
\<close>

datatype form_message =
    PleaseSignIn
  | EndBeforeStart
  | PermissionDenied
  | RelationshipError
  | TableNotFound
  | DatabaseError "string option"
  | UnexpectedError
  | Submitted

definition insert_error_message :: "PgError \<Rightarrow> form_message" where
  "insert_error_message e =
     (if pg_code e = ''42501'' \<or> message_includes e ''permission'' then PermissionDenied
      else if pg_code e = ''23503'' then RelationshipError
      else if pg_code e = ''PGRST116'' then TableNotFound
      else DatabaseError (pg_message e))"

text \<open>
  The payload \<open>handleSubmit\<close> inserts has no \<open>id\<close>, \<open>created_at\<close> or decision field: the
  store fills in \<open>id\<close> and \<open>created_at\<close> (arguments \<open>new_id\<close> and \<open>now\<close>) and leaves the
  decision fields empty. The timer that replaces the message after 30 seconds without an
  answer touches no table and is left out.
\<close>

definition requestPayload ::
  "User \<Rightarrow> FormData \<Rightarrow> int option \<Rightarrow> string \<Rightarrow> timestamp \<Rightarrow> LeaveRequest" where
  "requestPayload user formData totalDays new_id now =
     \<lparr> lr_id = new_id,
       lr_employee_id = u_id user,
       lr_leave_type = fd_leave_type formData,
       lr_start_date = fd_start_date formData,
       lr_end_date = fd_end_date formData,
       lr_total_days = totalDays,
       lr_reason = trim (fd_reason formData),
       lr_status = pending,
       lr_approved_by = None,
       lr_approved_at = None,
       lr_rejection_reason = None,
       lr_created_at = now \<rparr>"

text \<open>\<open>totalDays <= 0\<close>: a comparison with \<open>NaN\<close> is false.\<close>

definition not_positive :: "int option \<Rightarrow> bool" where
  "not_positive totalDays = (case totalDays of None \<Rightarrow> False | Some n \<Rightarrow> n \<le> 0)"

definition handleSubmit ::
  "(int \<Rightarrow> nat option) \<Rightarrow> User option \<Rightarrow> Profile option \<Rightarrow> FormData \<Rightarrow> fault \<Rightarrow> string
     \<Rightarrow> timestamp \<Rightarrow> db \<Rightarrow> db \<times> form_message" where
  "handleSubmit legacy_parse user profile formData insert_fault new_id now d =
     (case (user, profile) of
        (Some u, Some p) \<Rightarrow>
          (let totalDays =
                 calculateDays legacy_parse (fd_start_date formData) (fd_end_date formData)
           in if not_positive totalDays then (d, EndBeforeStart)
              else (case insert_fault of
                      Error e \<Rightarrow> (d, insert_error_message e)
                    | Throws \<Rightarrow> (d, UnexpectedError)
                    | NoFault \<Rightarrow>
                        (d\<lparr>leave_requests :=
                             leave_requests d @ [requestPayload u formData totalDays new_id now]\<rparr>,
                         Submitted)))
      | _ \<Rightarrow> (d, PleaseSignIn))"

text \<open>
  The form element runs \<open>handleSubmit\<close> only when the browser finds its controls valid
  and the submit button enabled. All four controls are \<open>required\<close>; the start date has
  \<open>min\<close> today, the end date has \<open>min\<close> the start date (\<open>today\<close> is the day number of the
  browser's date); the button is disabled without a user or a profile. \<open>None\<close> is a
  submit that the browser blocks.
\<close>

definition controls_valid :: "int \<Rightarrow> FormData \<Rightarrow> bool" where
  "controls_valid today formData =
     (fd_leave_type formData \<noteq> []
      \<and> (case (fd_start_date formData, fd_end_date formData) of
            (Day s, Day e) \<Rightarrow> today \<le> s \<and> s \<le> e
          | _ \<Rightarrow> False)
      \<and> fd_reason formData \<noteq> [])"

definition onSubmit ::
  "(int \<Rightarrow> nat option) \<Rightarrow> int \<Rightarrow> User option \<Rightarrow> Profile option \<Rightarrow> FormData \<Rightarrow> fault
     \<Rightarrow> string \<Rightarrow> timestamp \<Rightarrow> db \<Rightarrow> (db \<times> form_message) option" where
  "onSubmit legacy_parse today user profile formData insert_fault new_id now d =
     (if controls_valid today formData \<and> user \<noteq> None \<and> profile \<noteq> None
      then Some (handleSubmit legacy_parse user profile formData insert_fault new_id now d)
      else None)"

section \<open>LeaveRequestsList.tsx\<close>

text \<open>The rows the list component keeps in its state: a request joined with its employee.\<close>

record EmployeeInfo =
  ei_full_name :: string
  ei_employee_id :: string
  ei_department :: "string option"

record ListedRequest =
  li_id :: string
  li_employee_id :: string
  li_leave_type :: string
  li_start_date :: date_string
  li_end_date :: date_string
  li_total_days :: "int option"
  li_reason :: string
  li_status :: status
  li_rejection_reason :: "string option"
  li_created_at :: timestamp
  li_employee :: "EmployeeInfo option"

text \<open>\<open>limit || 100\<close>: an absent limit and the limit 0 are falsy.\<close>

definition limit_or_100 :: "nat option \<Rightarrow> nat" where
  "limit_or_100 limit = (case limit of None \<Rightarrow> 100 | Some n \<Rightarrow> if n = 0 then 100 else n)"

text \<open>
  \<open>.select("*").order("created_at", { ascending: false }).limit(n)\<close>: the table sorted by
  \<open>created_at\<close>, newest first, cut after \<open>n\<close> rows. (The store fixes no order among rows
  of equal \<open>created_at\<close>; the model takes the reverse of the stable ascending sort.)
\<close>

definition order_created_at_desc :: "LeaveRequest list \<Rightarrow> LeaveRequest list" where
  "order_created_at_desc rows = rev (sort_key lr_created_at rows)"

definition select_leave_requests :: "nat \<Rightarrow> db \<Rightarrow> LeaveRequest list" where
  "select_leave_requests n d = take n (order_created_at_desc (leave_requests d))"

text \<open>\<open>.from("profiles").select(...).in("id", employeeIds)\<close>\<close>

definition select_profiles_in :: "string list \<Rightarrow> db \<Rightarrow> Profile list" where
  "select_profiles_in employeeIds d = filter (\<lambda>p. pr_id p \<in> set employeeIds) (profiles d)"

definition transform :: "Profile list option \<Rightarrow> LeaveRequest \<Rightarrow> ListedRequest" where
  "transform profilesData request =
     (let employeeProfile =
            (case profilesData of
               None \<Rightarrow> None
             | Some ps \<Rightarrow> find (\<lambda>profile. pr_id profile = lr_employee_id request) ps)
      in \<lparr> li_id = lr_id request,
           li_employee_id = lr_employee_id request,
           li_leave_type = lr_leave_type request,
           li_start_date = lr_start_date request,
           li_end_date = lr_end_date request,
           li_total_days = lr_total_days request,
           li_reason = lr_reason request,
           li_status = lr_status request,
           li_rejection_reason = lr_rejection_reason request,
           li_created_at = lr_created_at request,
           li_employee =
             (case employeeProfile of
                None \<Rightarrow> None
              | Some p \<Rightarrow> Some \<lparr> ei_full_name = pr_full_name p,
                                 ei_employee_id = pr_employee_id p,
                                 ei_department = pr_department p \<rparr>) \<rparr>)"

text \<open>String concatenation with a message that may be absent.\<close>

definition js_string :: "string option \<Rightarrow> string" where
  "js_string m = (case m of None \<Rightarrow> ''undefined'' | Some s \<Rightarrow> s)"

text \<open>
  \<open>fetchLeaveRequests\<close> returns the new \<open>requests\<close> and \<open>error\<close> of the component's state.
  The first fault is that of the query on \<open>leave_requests\<close>, the second that of the query
  on \<open>profiles\<close>.
\<close>

definition fetchLeaveRequests ::
  "nat option \<Rightarrow> fault \<Rightarrow> fault \<Rightarrow> db \<Rightarrow> ListedRequest list \<times> string option" where
  "fetchLeaveRequests limit requests_fault profiles_fault d =
     (case requests_fault of
        Throws \<Rightarrow> ([], Some ''An unexpected error occurred while fetching leave requests.'')
      | Error e \<Rightarrow>
          ([], Some (if pg_code e = ''PGRST116'' \<or> message_includes e ''does not exist''
                     then ''Leave requests table not found. Please run the database setup first.''
                     else ''Error fetching leave requests: '' @ js_string (pg_message e)))
      | NoFault \<Rightarrow>
          (let leaveRequestsData = select_leave_requests (limit_or_100 limit) d
           in if leaveRequestsData = [] then ([], None)
              else (let employeeIds = remdups (map lr_employee_id leaveRequestsData)
                    in case profiles_fault of
                         Throws \<Rightarrow>
                           ([], Some ''An unexpected error occurred while fetching leave requests.'')
                       | Error e \<Rightarrow> (map (transform None) leaveRequestsData, None)
                       | NoFault \<Rightarrow>
                           (map (transform (Some (select_profiles_in employeeIds d)))
                              leaveRequestsData, None))))"

text \<open>What a handler of the list does after the store has answered.\<close>

datatype outcome = Alert string | Refresh

text \<open>
  \<open>handleApprove\<close>: \<open>user\<close> is the result of \<open>supabase.auth.getUser()\<close>; with no user,
  \<open>approved_by\<close> is \<open>undefined\<close> and the update leaves that column as it is. The fault
  \<open>Throws\<close> stands for an exception anywhere in the \<open>try\<close> block, that of \<open>getUser\<close>
  included: nothing is written and the \<open>catch\<close> block alerts.
\<close>

definition approve_values :: "User option \<Rightarrow> timestamp \<Rightarrow> LeaveRequest \<Rightarrow> LeaveRequest" where
  "approve_values user now r =
     r\<lparr> lr_status := approved,
        lr_approved_at := Some now,
        lr_approved_by := (case user of None \<Rightarrow> lr_approved_by r | Some u \<Rightarrow> Some (u_id u)) \<rparr>"

definition handleApprove ::
  "string \<Rightarrow> User option \<Rightarrow> timestamp \<Rightarrow> fault \<Rightarrow> db \<Rightarrow> db \<times> outcome" where
  "handleApprove requestId user now update_fault d =
     (case update_fault of
        Error e \<Rightarrow> (d, Alert (''Error approving request: '' @ js_string (pg_message e)))
      | Throws \<Rightarrow> (d, Alert ''An unexpected error occurred while approving the request.'')
      | NoFault \<Rightarrow>
          (d\<lparr>leave_requests :=
               update_eq_id lr_id requestId (approve_values user now) (leave_requests d)\<rparr>,
           Refresh))"

text \<open>\<open>handleReject\<close>: an absent reason (\<open>null\<close>, \<open>undefined\<close>) is \<open>None\<close>.\<close>

definition reject_values :: "string \<Rightarrow> LeaveRequest \<Rightarrow> LeaveRequest" where
  "reject_values reason r = r\<lparr> lr_status := rejected, lr_rejection_reason := Some reason \<rparr>"

definition handleReject :: "string \<Rightarrow> string option \<Rightarrow> fault \<Rightarrow> db \<Rightarrow> db \<times> outcome" where
  "handleReject requestId reason update_fault d =
     (case reason of
        None \<Rightarrow> (d, Alert ''Please provide a reason for rejection.'')
      | Some str \<Rightarrow>
          if str = [] \<or> trim str = []
          then (d, Alert ''Please provide a reason for rejection.'')
          else (case update_fault of
                  Error e \<Rightarrow> (d, Alert (''Error rejecting request: '' @ js_string (pg_message e)))
                | Throws \<Rightarrow> (d, Alert ''An unexpected error occurred while rejecting the request.'')
                | NoFault \<Rightarrow>
                    (d\<lparr>leave_requests :=
                         update_eq_id lr_id requestId (reject_values str) (leave_requests d)\<rparr>,
                     Refresh)))"

text \<open>
  The table renders the Approve and Reject buttons of a row inside
  \<open>showActions && isAdmin && (... request.status === "pending" && ...)\<close>.
\<close>

definition decision_buttons :: "bool \<Rightarrow> bool \<Rightarrow> ListedRequest \<Rightarrow> bool" where
  "decision_buttons showActions isAdmin request =
     (showActions \<and> isAdmin \<and> li_status request = pending)"

section \<open>EmployeesList.tsx\<close>

text \<open>\<open>toggleEmployeeStatus\<close> returns the tables and whether it refetches the employees.\<close>

definition toggleEmployeeStatus :: "string \<Rightarrow> bool \<Rightarrow> fault \<Rightarrow> db \<Rightarrow> db \<times> bool" where
  "toggleEmployeeStatus employeeId currentStatus update_fault d =
     (case update_fault of
        NoFault \<Rightarrow>
          (d\<lparr>profiles :=
               update_eq_id pr_id employeeId (\<lambda>p. p\<lparr>pr_is_active := \<not> currentStatus\<rparr>)
                 (profiles d)\<rparr>,
           True)
      | Error e \<Rightarrow> (d, False)
      | Throws \<Rightarrow> (d, False))"

section \<open>AuthContext.tsx\<close>

text \<open>
  A query whose data the caller uses: the store returns data, answers with an error
  object, or the client throws.
\<close>

datatype 'a response = Data 'a | Failed PgError | Thrown

text \<open>A whole number as a template literal prints it: decimal digits after the sign.\<close>

fun decimal :: "nat \<Rightarrow> string" where
  "decimal n =
     (if n < 10 then [char_of (48 + n)]
      else decimal (n div 10) @ [char_of (48 + n mod 10)])"

definition number_string :: "int \<Rightarrow> string" where
  "number_string n = (if n < 0 then ''-'' @ decimal (nat (- n)) else decimal (nat n))"

text \<open>
  \<open>user.user_metadata?.full_name || user.email?.split('@')[0] || "New User"\<close>;
  \<open>||\<close> skips an absent and an empty string.
\<close>

definition basic_full_name :: "User \<Rightarrow> string" where
  "basic_full_name user =
     (let from_metadata = (case u_full_name user of None \<Rightarrow> [] | Some n \<Rightarrow> n);
          from_email =
            (case u_email user of None \<Rightarrow> [] | Some e \<Rightarrow> takeWhile (\<lambda>c. c \<noteq> CHR ''@'') e)
      in if from_metadata \<noteq> [] then from_metadata
         else if from_email \<noteq> [] then from_email
         else ''New User'')"

definition basicProfile :: "User \<Rightarrow> timestamp \<Rightarrow> Profile" where
  "basicProfile user now =
     \<lparr> pr_id = u_id user,
       pr_email = (case u_email user of None \<Rightarrow> [] | Some e \<Rightarrow> e),
       pr_full_name = basic_full_name user,
       pr_avatar_url = None,
       pr_phone = None,
       pr_address = None,
       pr_employee_id = ''EMP'' @ number_string now,
       pr_department = None,
       pr_position = None,
       pr_hire_date = None,
       pr_salary = None,
       pr_user_role = employee,
       pr_manager_id = None,
       pr_is_active = True,
       pr_created_at = now,
       pr_updated_at = now \<rparr>"

text \<open>
  \<open>createBasicProfile\<close>: \<open>inserted\<close> is the answer of the store to the insert of the basic
  profile. On an error the function returns the basic profile itself, an object that is in
  no table.
\<close>

definition createBasicProfile :: "User \<Rightarrow> timestamp \<Rightarrow> Profile response \<Rightarrow> Profile option" where
  "createBasicProfile user now inserted =
     (case inserted of
        Failed e \<Rightarrow> Some (basicProfile user now)
      | Data row \<Rightarrow> Some row
      | Thrown \<Rightarrow> None)"

definition table_missing :: "PgError \<Rightarrow> bool" where
  "table_missing e =
     (pg_code e = ''PGRST116'' \<or> message_includes e ''relation''
      \<or> message_includes e ''does not exist'')"

definition permission_error :: "PgError \<Rightarrow> bool" where
  "permission_error e = (pg_code e = ''PGRST301'' \<or> message_includes e ''permission'')"

text \<open>
  \<open>fetchProfile\<close>: \<open>selected\<close> is the answer to the query on \<open>profiles\<close> (\<open>maybeSingle\<close>
  gives \<open>null\<close> data when no row matches), \<open>currentUser\<close> the result of
  \<open>supabase.auth.getUser()\<close> (\<open>None\<close> also when that call throws: the \<open>catch\<close> block
  returns \<open>null\<close> as the branches without a user do). The function returns a profile or
  \<open>null\<close>; it has no other way out, every exception being caught.
\<close>

definition fetchProfile ::
  "Profile option response \<Rightarrow> User option \<Rightarrow> timestamp \<Rightarrow> Profile response \<Rightarrow> Profile option" where
  "fetchProfile selected currentUser now inserted =
     (case selected of
        Thrown \<Rightarrow> None
      | Failed e \<Rightarrow>
          if table_missing e then None
          else if permission_error e
          then (case currentUser of
                  Some u \<Rightarrow> createBasicProfile u now inserted
                | None \<Rightarrow> None)
          else None
      | Data None \<Rightarrow>
          (case currentUser of
             Some u \<Rightarrow> createBasicProfile u now inserted
           | None \<Rightarrow> None)
      | Data (Some row) \<Rightarrow> Some row)"

text \<open>\<open>isAdmin: profile?.user_role === "admin"\<close>\<close>

definition isAdmin :: "Profile option \<Rightarrow> bool" where
  "isAdmin profile = (case profile of None \<Rightarrow> False | Some p \<Rightarrow> pr_user_role p = admin)"

section \<open>app/dashboard/page.tsx and the two dashboards\<close>

text \<open>
  The effect of the page: \<open>router.push("/auth/login")\<close> once a profile is loaded that is
  not active. \<open>Some path\<close> is a navigation to \<open>path\<close>.
\<close>

definition Dashboard_effect :: "Profile option \<Rightarrow> bool \<Rightarrow> string option" where
  "Dashboard_effect profile loading =
     (case profile of
        None \<Rightarrow> None
      | Some p \<Rightarrow> if \<not> loading \<and> \<not> pr_is_active p then Some ''/auth/login'' else None)"

datatype dashboard = AdminDashboard | EmployeeDashboard

datatype page = LoadingScreen | ProtectedRoute dashboard

definition Dashboard :: "Profile option \<Rightarrow> bool \<Rightarrow> page" where
  "Dashboard profile loading =
     (if loading then LoadingScreen
      else ProtectedRoute
             (if (case profile of None \<Rightarrow> False | Some p \<Rightarrow> pr_user_role p = admin)
              then AdminDashboard else EmployeeDashboard))"

text \<open>
  The components of the leave workflow that each dashboard mounts, with the props it gives
  them: the list of all requests with \<open>limit\<close> and \<open>showActions\<close>, the employees list,
  the employee's own requests with \<open>limit\<close>, the request form and the balance card.
  (Sidebar, notification bell, theme toggle and statistics cards are left out.)
\<close>

datatype component =
    LeaveRequestsList "nat option" bool
  | EmployeesList
  | MyLeaveRequests "nat option"
  | LeaveRequestForm
  | LeaveBalanceCard

fun mounts :: "dashboard \<Rightarrow> component list" where
  "mounts AdminDashboard =
     [LeaveRequestsList (Some 5) False, EmployeesList, LeaveRequestsList None True]"
| "mounts EmployeeDashboard =
     [MyLeaveRequests (Some 3), LeaveRequestForm, MyLeaveRequests None, LeaveBalanceCard]"

section \<open>Decision fields of a request\<close>

text \<open>
  The three optional columns a decision fills in, against the status: a pending request
  has none of them, an approved request has an approval time, a rejected request has a
  rejection reason.
\<close>

definition decision_fields_consistent :: "LeaveRequest \<Rightarrow> bool" where
  "decision_fields_consistent r =
     (case lr_status r of
        pending \<Rightarrow>
          lr_rejection_reason r = None \<and> lr_approved_by r = None \<and> lr_approved_at r = None
      | approved \<Rightarrow> lr_approved_at r \<noteq> None
      | rejected \<Rightarrow> lr_rejection_reason r \<noteq> None)"

section \<open>Example data\<close>

text \<open>
  An employee with a vacation allocation of 10 days for 2024, 2 of them used, who asks for
  2024-06-10 to 2024-06-14 (days 19884 to 19888 after 1970-01-01), and an administrator.
\<close>

definition employee_user :: User where
  "employee_user = \<lparr> u_id = ''e-1'', u_email = Some ''eve@example.com'', u_full_name = Some ''Eve'' \<rparr>"

definition admin_user :: User where
  "admin_user = \<lparr> u_id = ''a-1'', u_email = Some ''ada@example.com'', u_full_name = Some ''Ada'' \<rparr>"

definition employee_profile :: Profile where
  "employee_profile =
     \<lparr> pr_id = ''e-1'', pr_email = ''eve@example.com'', pr_full_name = ''Eve'',
       pr_avatar_url = None, pr_phone = None, pr_address = None, pr_employee_id = ''EMP1'',
       pr_department = Some ''Sales'', pr_position = None, pr_hire_date = None,
       pr_salary = None, pr_user_role = employee, pr_manager_id = None, pr_is_active = True,
       pr_created_at = 1700000000000, pr_updated_at = 1700000000000 \<rparr>"

definition inactive_profile :: Profile where
  "inactive_profile = employee_profile\<lparr> pr_is_active := False \<rparr>"

definition vacation_form :: FormData where
  "vacation_form =
     \<lparr> fd_leave_type = ''vacation'', fd_start_date = Day 19884, fd_end_date = Day 19888,
       fd_reason = ''Family trip'' \<rparr>"

text \<open>
  Two browsers: one whose \<open>Date\<close> reads no date string outside the ISO format, and one
  that reads such a string as midnight local time, five hours west of UTC.
\<close>

definition invalid_date_parse :: "int \<Rightarrow> nat option" where
  "invalid_date_parse d = None"

definition local_time_parse :: "int \<Rightarrow> nat option" where
  "local_time_parse d = Some (nat (d * 86400000 + 18000000))"

text \<open>The form with the start 9999-12-31 and the end 10000-01-01.\<close>

definition long_year_form :: FormData where
  "long_year_form = vacation_form\<lparr> fd_start_date := Day 2932896, fd_end_date := Day 2932897 \<rparr>"

definition blank_reason_form :: FormData where
  "blank_reason_form = vacation_form\<lparr> fd_reason := ''   '' \<rparr>"

definition vacation_request :: LeaveRequest where
  "vacation_request =
     \<lparr> lr_id = ''r-1'', lr_employee_id = ''e-1'', lr_leave_type = ''vacation'',
       lr_start_date = Day 19884, lr_end_date = Day 19888, lr_total_days = Some 5,
       lr_reason = ''Family trip'', lr_status = pending, lr_approved_by = None,
       lr_approved_at = None, lr_rejection_reason = None, lr_created_at = 1717000000000 \<rparr>"

definition long_request :: LeaveRequest where
  "long_request =
     \<lparr> lr_id = ''r-2'', lr_employee_id = ''e-1'', lr_leave_type = ''vacation'',
       lr_start_date = Day 19905, lr_end_date = Day 19912, lr_total_days = Some 8,
       lr_reason = ''Summer'', lr_status = pending, lr_approved_by = None,
       lr_approved_at = None, lr_rejection_reason = None, lr_created_at = 1718000000000 \<rparr>"

definition vacation_balance :: LeaveBalance where
  "vacation_balance =
     \<lparr> lb_id = ''b-1'', lb_employee_id = ''e-1'', lb_leave_type = ''vacation'',
       lb_total_days = 10, lb_used_days = 2, lb_remaining_days = 8, lb_year = 2024 \<rparr>"

definition low_balance :: LeaveBalance where
  "low_balance =
     \<lparr> lb_id = ''b-1'', lb_employee_id = ''e-1'', lb_leave_type = ''vacation'',
       lb_total_days = 10, lb_used_days = 7, lb_remaining_days = 3, lb_year = 2024 \<rparr>"

definition example_db :: db where
  "example_db =
     \<lparr> leave_requests = [vacation_request], leave_balances = [vacation_balance],
       profiles = [employee_profile] \<rparr>"

definition short_db :: db where
  "short_db =
     \<lparr> leave_requests = [long_request], leave_balances = [low_balance],
       profiles = [employee_profile] \<rparr>"

definition two_requests_db :: db where
  "two_requests_db =
     \<lparr> leave_requests = [vacation_request, long_request], leave_balances = [vacation_balance],
       profiles = [employee_profile] \<rparr>"

definition crowded_db :: db where
  "crowded_db =
     \<lparr> leave_requests = replicate 101 vacation_request, leave_balances = [vacation_balance],
       profiles = [employee_profile] \<rparr>"

text \<open>Two answers of the store to the query for a profile.\<close>

definition table_missing_error :: PgError where
  "table_missing_error =
     \<lparr> pg_code = ''PGRST116'', pg_message = Some ''relation public.profiles does not exist'' \<rparr>"

definition permission_denied_error :: PgError where
  "permission_denied_error =
     \<lparr> pg_code = ''PGRST301'', pg_message = Some ''permission denied'' \<rparr>"


section \<open>Creating a request\<close>

lemma Math_ceil_div_ceiling: "Math_ceil_div a b = \<lceil>real_of_int a / real_of_int b\<rceil>"
  by (simp add: Math_ceil_div_def ceiling_divide_eq_div)

lemma getTime_iso: "iso_format d \<Longrightarrow> getTime legacy_parse d = Some (d * 86400000)"
  by (simp add: getTime_def)

lemma calculateDays_iso:
  assumes "iso_format s" and "iso_format e"
  shows "calculateDays legacy_parse (Day s) (Day e) = Some (e - s + 1)"
proof -
  have "e * 86400000 - s * 86400000 = (e - s) * 86400000"
    by (simp add: algebra_simps)
  then have "Math_ceil_div (e * 86400000 - s * 86400000) 86400000 = e - s"
    by (simp add: Math_ceil_div_def)
  with assms show ?thesis by (simp add: getTime_iso)
qed

lemma handleSubmit_iso:
  assumes "fd_start_date formData = Day s" and "fd_end_date formData = Day e"
    and "iso_format s" and "iso_format e"
  shows "handleSubmit legacy_parse (Some u) (Some p) formData insert_fault new_id now d =
      (if e - s + 1 \<le> 0 then (d, EndBeforeStart)
       else case insert_fault of
              Error err \<Rightarrow> (d, insert_error_message err)
            | Throws \<Rightarrow> (d, UnexpectedError)
            | NoFault \<Rightarrow>
                (d\<lparr>leave_requests :=
                     leave_requests d @ [requestPayload u formData (Some (e - s + 1)) new_id now]\<rparr>,
                 Submitted))"
  using assms
  by (simp add: handleSubmit_def calculateDays_iso not_positive_def Let_def
      del: calculateDays.simps)

text \<open>
  Dates with four-digit years. When the form holds a start day \<open>s\<close> and an end day \<open>e\<close>,
  both up to 9999-12-31, with \<open>s \<le> e\<close> and the store accepts the insert, \<open>handleSubmit\<close>
  appends one pending request whose \<open>total_days\<close> is \<open>e - s + 1\<close>; when \<open>e < s\<close> it shows
  "End date must be after start date" and the tables are unchanged, whatever the store
  would have answered.
\<close>

lemma submit_four_digit_years:
  assumes "fd_start_date formData = Day s" and "fd_end_date formData = Day e"
    and "iso_format s" and "iso_format e"
  shows "(s \<le> e \<longrightarrow>
            (\<exists>row. handleSubmit legacy_parse (Some u) (Some p) formData NoFault new_id now d =
                     (d\<lparr>leave_requests := leave_requests d @ [row]\<rparr>, Submitted)
                   \<and> lr_total_days row = Some (e - s + 1) \<and> lr_status row = pending
                   \<and> lr_start_date row = Day s \<and> lr_end_date row = Day e))
       \<and> (e < s \<longrightarrow>
            handleSubmit legacy_parse (Some u) (Some p) formData insert_fault new_id now d
              = (d, EndBeforeStart))"
proof (intro conjI impI)
  assume "s \<le> e"
  then have "handleSubmit legacy_parse (Some u) (Some p) formData NoFault new_id now d =
      (d\<lparr>leave_requests :=
           leave_requests d @ [requestPayload u formData (Some (e - s + 1)) new_id now]\<rparr>,
       Submitted)"
    by (simp add: handleSubmit_iso [OF assms])
  then show "\<exists>row. handleSubmit legacy_parse (Some u) (Some p) formData NoFault new_id now d =
                   (d\<lparr>leave_requests := leave_requests d @ [row]\<rparr>, Submitted)
                 \<and> lr_total_days row = Some (e - s + 1) \<and> lr_status row = pending
                 \<and> lr_start_date row = Day s \<and> lr_end_date row = Day e"
    using assms(1,2)
    by (intro exI [of _ "requestPayload u formData (Some (e - s + 1)) new_id now"])
      (simp add: requestPayload_def)
next
  assume "e < s"
  then show "handleSubmit legacy_parse (Some u) (Some p) formData insert_fault new_id now d
      = (d, EndBeforeStart)"
    by (simp add: handleSubmit_iso [OF assms])
qed

lemma submit_four_digit_years_example:
  "handleSubmit invalid_date_parse (Some employee_user) (Some employee_profile) vacation_form
     NoFault ''r-9'' 1717000000000 example_db
   = (example_db\<lparr>leave_requests := [vacation_request, vacation_request\<lparr>lr_id := ''r-9''\<rparr>]\<rparr>,
      Submitted)
   \<and> handleSubmit invalid_date_parse (Some employee_user) (Some employee_profile)
        (vacation_form\<lparr>fd_end_date := Day 19883\<rparr>) NoFault ''r-9'' 1717000000000 example_db
      = (example_db, EndBeforeStart)"
  by (simp add: handleSubmit_def calculateDays_iso iso_format_def not_positive_def
      vacation_form_def requestPayload_def example_db_def vacation_request_def
      employee_user_def trim_def is_whitespace_def Let_def
      del: calculateDays.simps)

lemma long_year_times:
  "getTime local_time_parse 2932896 = Some 253402214400000"
  "getTime local_time_parse 2932897 = Some 253402318800000"
  "getTime invalid_date_parse 2932897 = None"
  by (simp_all add: getTime_def iso_format_def local_time_parse_def invalid_date_parse_def
      TimeClip_def)

text \<open>
  Claim C4, at an input that breaks it. On 2024-05-29 (day 19872) the form holds the start
  9999-12-31 and the end 10000-01-01, two days; the controls are valid and the store
  accepts the insert. The end date is not in the ISO format. In the browser that reads it
  as midnight local time, five hours west of UTC, the request is stored with
  \<open>total_days\<close> 3. In the browser that reads it as an invalid date, \<open>totalDays\<close> is \<open>NaN\<close>,
  which passes the test \<open>totalDays <= 0\<close>, and the request is stored with \<open>total_days\<close>
  \<open>null\<close>.
\<close>

theorem long_year_total_days:
  "controls_valid 19872 long_year_form
   \<and> onSubmit local_time_parse 19872 (Some employee_user) (Some employee_profile)
        long_year_form NoFault ''r-9'' 1717000000000 example_db
      = Some (example_db\<lparr>leave_requests :=
                 [vacation_request,
                  vacation_request\<lparr>lr_id := ''r-9'', lr_start_date := Day 2932896,
                    lr_end_date := Day 2932897, lr_total_days := Some 3\<rparr>]\<rparr>, Submitted)
   \<and> onSubmit invalid_date_parse 19872 (Some employee_user) (Some employee_profile)
        long_year_form NoFault ''r-9'' 1717000000000 example_db
      = Some (example_db\<lparr>leave_requests :=
                 [vacation_request,
                  vacation_request\<lparr>lr_id := ''r-9'', lr_start_date := Day 2932896,
                    lr_end_date := Day 2932897, lr_total_days := None\<rparr>]\<rparr>, Submitted)"
proof -
  have "calculateDays local_time_parse (Day 2932896) (Day 2932897) = Some 3"
    by (simp add: long_year_times Math_ceil_div_def)
  moreover have "calculateDays invalid_date_parse (Day 2932896) (Day 2932897) = None"
    by (simp add: long_year_times getTime_iso iso_format_def)
  ultimately show ?thesis
    by (simp add: onSubmit_def controls_valid_def long_year_form_def vacation_form_def
        handleSubmit_def not_positive_def requestPayload_def example_db_def
        vacation_request_def employee_user_def trim_def is_whitespace_def Let_def
        del: calculateDays.simps)
qed

text \<open>
  Claim C6, at the input that breaks it: on 2024-05-29 (day 19872) the form holds valid
  dates and a reason of three spaces. The reason passes the \<open>required\<close> check of the
  browser, \<open>handleSubmit\<close> runs and accepts it, and the request is stored with the empty
  reason.
\<close>

theorem blank_reason_stored_empty:
  "controls_valid 19872 blank_reason_form
   \<and> onSubmit invalid_date_parse 19872 (Some employee_user) (Some employee_profile)
        blank_reason_form NoFault ''r-9'' 1717000000000 example_db
      = Some (example_db\<lparr>leave_requests :=
                 [vacation_request,
                  vacation_request\<lparr>lr_id := ''r-9'', lr_reason := []\<rparr>]\<rparr>, Submitted)"
  by (simp add: onSubmit_def controls_valid_def blank_reason_form_def vacation_form_def
      handleSubmit_def calculateDays_iso iso_format_def not_positive_def requestPayload_def
      example_db_def vacation_request_def employee_user_def trim_def is_whitespace_def Let_def
      del: calculateDays.simps)

section \<open>Rejecting without a reason\<close>

text \<open>
  Claim C5. When the rejection reason is absent, or empty after trimming, \<open>handleReject\<close>
  alerts "Please provide a reason for rejection." and writes nothing: the tables, and so
  the request with its status, are as before, whatever the store would have answered.
\<close>

theorem reject_requires_reason:
  assumes "reason = None \<or> (\<exists>s. reason = Some s \<and> trim s = [])"
  shows "handleReject requestId reason update_fault d =
           (d, Alert ''Please provide a reason for rejection.'')"
  using assms by (auto simp: handleReject_def)

theorem reject_requires_reason_witness:
  "trim ''   '' = []
   \<and> handleReject ''r-1'' (Some ''   '') NoFault example_db =
        (example_db, Alert ''Please provide a reason for rejection.'')
   \<and> handleReject ''r-1'' None NoFault example_db =
        (example_db, Alert ''Please provide a reason for rejection.'')"
proof -
  have blank: "trim ''   '' = []"
    by (simp add: trim_def is_whitespace_def)
  then have "Some ''   '' = None \<or> (\<exists>s. Some ''   '' = Some s \<and> trim s = [])"
    by simp
  from reject_requires_reason [OF this] reject_requires_reason [of None] blank
  show ?thesis by simp
qed

section \<open>Deciding a request\<close>

lemma in_update_eq_id:
  "r' \<in> set (update_eq_id ident key values rows) \<longleftrightarrow>
     (\<exists>r \<in> set rows. r' = (if ident r = key then values r else r))"
  unfolding update_eq_id_def by (induction rows) auto

lemma handleApprove_balances:
  "leave_balances (fst (handleApprove requestId user now update_fault d)) = leave_balances d"
  by (simp add: handleApprove_def split: fault.split)

lemma handleApprove_profiles:
  "profiles (fst (handleApprove requestId user now update_fault d)) = profiles d"
  by (simp add: handleApprove_def split: fault.split)

lemma handleApprove_requests:
  "leave_requests (fst (handleApprove requestId user now update_fault d)) =
     (if update_fault = NoFault
      then update_eq_id lr_id requestId (approve_values user now) (leave_requests d)
      else leave_requests d)"
  by (simp add: handleApprove_def split: fault.split)


lemma handleReject_balances:
  "leave_balances (fst (handleReject requestId reason update_fault d)) = leave_balances d"
  by (simp add: handleReject_def split: fault.split option.split)

lemma handleReject_requests:
  "leave_requests (fst (handleReject requestId reason update_fault d)) =
     (case reason of
        None \<Rightarrow> leave_requests d
      | Some s \<Rightarrow>
          if s \<noteq> [] \<and> trim s \<noteq> [] \<and> update_fault = NoFault
          then update_eq_id lr_id requestId (reject_values s) (leave_requests d)
          else leave_requests d)"
  by (simp add: handleReject_def split: fault.split option.split)



lemma approve_values_fields:
  "lr_status (approve_values user now r) = approved"
  "lr_approved_at (approve_values user now r) = Some now"
  "lr_approved_by (approve_values (Some u) now r) = Some (u_id u)"
  "lr_rejection_reason (approve_values user now r) = lr_rejection_reason r"
  "lr_id (approve_values user now r) = lr_id r"
  "lr_total_days (approve_values user now r) = lr_total_days r"
  by (simp_all add: approve_values_def)

lemma reject_values_fields:
  "lr_status (reject_values s r) = rejected"
  "lr_rejection_reason (reject_values s r) = Some s"
  "lr_approved_at (reject_values s r) = lr_approved_at r"
  "lr_approved_by (reject_values s r) = lr_approved_by r"
  "lr_id (reject_values s r) = lr_id r"
  by (simp_all add: reject_values_def)

text \<open>
  Claim C1, as the code has it. When the store accepts the update, \<open>handleApprove\<close>
  refreshes the list and leaves the tables as they were but for the requests with the
  given id: on each of them the status becomes approved, the approval time is the time of
  the call and, when a user is signed in, the approver is that user (with no user the
  approver stays as it was); their other columns and all other requests are unchanged.
  When the store does not accept the update, no table changes. In both cases the balance
  rows and the profiles are the same after the call as before: there is no debit.
\<close>

theorem approve_writes_request_only:
  "handleApprove requestId user now NoFault d =
     (d\<lparr>leave_requests :=
          map (\<lambda>r. if lr_id r = requestId
                    then r\<lparr>lr_status := approved,
                           lr_approved_at := Some now,
                           lr_approved_by :=
                             (case user of None \<Rightarrow> lr_approved_by r | Some u \<Rightarrow> Some (u_id u))\<rparr>
                    else r)
            (leave_requests d)\<rparr>,
      Refresh)
   \<and> (update_fault \<noteq> NoFault \<longrightarrow> fst (handleApprove requestId user now update_fault d) = d)
   \<and> leave_balances (fst (handleApprove requestId user now update_fault d)) = leave_balances d
   \<and> profiles (fst (handleApprove requestId user now update_fault d)) = profiles d"
proof (intro conjI impI)
  show "handleApprove requestId user now NoFault d =
     (d\<lparr>leave_requests :=
          map (\<lambda>r. if lr_id r = requestId
                    then r\<lparr>lr_status := approved,
                           lr_approved_at := Some now,
                           lr_approved_by :=
                             (case user of None \<Rightarrow> lr_approved_by r | Some u \<Rightarrow> Some (u_id u))\<rparr>
                    else r)
            (leave_requests d)\<rparr>,
      Refresh)"
    by (simp add: handleApprove_def update_eq_id_def approve_values_def)
next
  assume "update_fault \<noteq> NoFault"
  then show "fst (handleApprove requestId user now update_fault d) = d"
    by (cases update_fault) (simp_all add: handleApprove_def)
next
  show "leave_balances (fst (handleApprove requestId user now update_fault d)) = leave_balances d"
    by (rule handleApprove_balances)
next
  show "profiles (fst (handleApprove requestId user now update_fault d)) = profiles d"
    by (rule handleApprove_profiles)
qed

theorem approve_writes_request_only_witness:
  "handleApprove ''r-1'' (Some admin_user) 1717100000000 NoFault example_db =
     (example_db\<lparr>leave_requests :=
        [vacation_request\<lparr>lr_status := approved, lr_approved_at := Some 1717100000000,
                           lr_approved_by := Some ''a-1''\<rparr>]\<rparr>, Refresh)
   \<and> Throws \<noteq> NoFault
   \<and> fst (handleApprove ''r-1'' (Some admin_user) 1717100000000 Throws example_db) = example_db
   \<and> leave_balances (fst (handleApprove ''r-1'' (Some admin_user) 1717100000000 Throws
        example_db)) = [vacation_balance]"
  using approve_writes_request_only [of "''r-1''" "Some admin_user" 1717100000000 example_db
      Throws]
  by (simp add: example_db_def vacation_request_def admin_user_def)

text \<open>
  Against claim C1 as stated: the employee has used 2 of 10 vacation days and the pending
  request is for 5 days; the approval succeeds and \<open>used_days\<close> is still 2, not 7.
\<close>

theorem approve_without_debit:
  "lr_total_days vacation_request = Some 5
   \<and> map lb_used_days (leave_balances example_db) = [2]
   \<and> snd (handleApprove ''r-1'' (Some admin_user) 1717100000000 NoFault example_db) = Refresh
   \<and> map lr_status (leave_requests
        (fst (handleApprove ''r-1'' (Some admin_user) 1717100000000 NoFault example_db)))
      = [approved]
   \<and> map lb_used_days (leave_balances
        (fst (handleApprove ''r-1'' (Some admin_user) 1717100000000 NoFault example_db)))
      = [2]
   \<and> map lb_used_days (leave_balances
        (fst (handleApprove ''r-1'' (Some admin_user) 1717100000000 NoFault example_db)))
      \<noteq> [2 + 5]"
  by (simp add: handleApprove_def example_db_def vacation_request_def vacation_balance_def
      update_eq_id_def approve_values_def)

text \<open>
  Claim C2, as the code has it. \<open>handleApprove\<close> does not read the balances. A request
  that asks for more days than the matching balance row has left is approved like any
  other once the store accepts the update: the handler refreshes the list, the request is
  in the table with status approved and its \<open>total_days\<close> as before, and the balance rows
  are unchanged.
\<close>

theorem approve_beyond_balance:
  assumes "r \<in> set (leave_requests d)" and "lr_id r = requestId"
    and "b \<in> set (leave_balances d)"
    and "lb_employee_id b = lr_employee_id r" and "lb_leave_type b = lr_leave_type r"
    and "lr_total_days r = Some n" and "lb_remaining_days b < n"
  shows "snd (handleApprove requestId user now NoFault d) = Refresh
     \<and> approve_values user now r \<in> set (leave_requests (fst (handleApprove requestId user now NoFault d)))
     \<and> lr_status (approve_values user now r) = approved
     \<and> lr_total_days (approve_values user now r) = lr_total_days r
     \<and> leave_balances (fst (handleApprove requestId user now NoFault d)) = leave_balances d"
proof -
  have "approve_values user now r
      \<in> set (update_eq_id lr_id requestId (approve_values user now) (leave_requests d))"
    using assms(1,2) by (auto simp: in_update_eq_id)
  then show ?thesis
    by (simp add: handleApprove_requests handleApprove_balances approve_values_fields)
      (simp add: handleApprove_def)
qed

theorem approve_beyond_balance_witness:
  "lr_total_days long_request = Some 8 \<and> lb_remaining_days low_balance < 8
   \<and> snd (handleApprove ''r-2'' (Some admin_user) 1717100000000 NoFault short_db) = Refresh
   \<and> approve_values (Some admin_user) 1717100000000 long_request
       \<in> set (leave_requests (fst (handleApprove ''r-2'' (Some admin_user) 1717100000000 NoFault short_db)))
   \<and> lr_status (approve_values (Some admin_user) 1717100000000 long_request) = approved
   \<and> leave_balances (fst (handleApprove ''r-2'' (Some admin_user) 1717100000000 NoFault short_db))
       = [low_balance]"
proof -
  have "long_request \<in> set (leave_requests short_db)" "lr_id long_request = ''r-2''"
    "low_balance \<in> set (leave_balances short_db)"
    "lb_employee_id low_balance = lr_employee_id long_request"
    "lb_leave_type low_balance = lr_leave_type long_request"
    "lr_total_days long_request = Some 8"
    and short: "lb_remaining_days low_balance < 8"
    by (simp_all add: short_db_def long_request_def low_balance_def)
  from approve_beyond_balance [OF this, of "Some admin_user" 1717100000000] short
  show ?thesis by (simp add: short_db_def long_request_def)
qed

text \<open>
  Against claim C2 as stated: 3 days remain and the request is for 8; the approval does
  not fail, the request is approved.
\<close>

theorem approve_despite_shortfall:
  "map lb_remaining_days (leave_balances short_db) = [3]
   \<and> map lr_total_days (leave_requests short_db) = [Some 8]
   \<and> handleApprove ''r-2'' (Some admin_user) 1717100000000 NoFault short_db =
       (short_db\<lparr>leave_requests :=
          [long_request\<lparr>lr_status := approved, lr_approved_by := Some ''a-1'',
                        lr_approved_at := Some 1717100000000\<rparr>]\<rparr>, Refresh)
   \<and> map lr_status (leave_requests
        (fst (handleApprove ''r-2'' (Some admin_user) 1717100000000 NoFault short_db)))
      \<noteq> [pending]"
  by (simp add: handleApprove_def short_db_def long_request_def low_balance_def
      update_eq_id_def approve_values_def admin_user_def)

section \<open>The transitions of the status\<close>





section \<open>The decision fields\<close>

lemma approve_values_consistent:
  "decision_fields_consistent (approve_values user now r)"
  by (simp add: decision_fields_consistent_def approve_values_def)

lemma reject_values_consistent:
  "decision_fields_consistent (reject_values s r)"
  by (simp add: decision_fields_consistent_def reject_values_def)

lemma update_eq_id_all:
  assumes "\<forall>r \<in> set rows. P r" and "\<forall>r \<in> set rows. ident r = key \<longrightarrow> P (values r)"
  shows "\<forall>r \<in> set (update_eq_id ident key values rows). P r"
  using assms by (auto simp: update_eq_id_def)

lemma requestPayload_consistent:
  "decision_fields_consistent (requestPayload u formData totalDays new_id now)"
  by (simp add: decision_fields_consistent_def requestPayload_def)

lemma handleSubmit_requests:
  "leave_requests (fst (handleSubmit legacy_parse user profile formData insert_fault new_id now d))
     = leave_requests d
   \<or> (\<exists>u totalDays.
        leave_requests (fst (handleSubmit legacy_parse user profile formData insert_fault new_id now d))
         = leave_requests d @ [requestPayload u formData totalDays new_id now])"
  by (auto simp: handleSubmit_def Let_def split: option.split fault.split)

lemma handleReject_keeps_approval:
  "map lr_approved_at (leave_requests (fst (handleReject requestId reason update_fault d)))
     = map lr_approved_at (leave_requests d)"
  "map lr_approved_by (leave_requests (fst (handleReject requestId reason update_fault d)))
     = map lr_approved_by (leave_requests d)"
  by (simp_all add: handleReject_requests update_eq_id_def reject_values_fields
      split: option.split)

text \<open>
  Claim C8, as the code has it. Take a table in which every pending request has no
  rejection reason, no approver and no approval time, every approved request has an
  approval time and every rejected request has a rejection reason. Then the same holds
  of every request after \<open>handleApprove\<close>, after \<open>handleReject\<close> and after \<open>handleSubmit\<close>,
  whoever is signed in, whatever the status of the request was and whatever the store
  answers; \<open>toggleEmployeeStatus\<close> does not touch the requests. The approval time is the
  only time a decision records: \<open>handleReject\<close> leaves the approval time and the approver
  of every request as they were.
\<close>

theorem decisions_keep_fields_consistent:
  assumes "\<forall>r \<in> set (leave_requests d). decision_fields_consistent r"
  shows "(\<forall>r \<in> set (leave_requests (fst (handleApprove requestId user now update_fault d))).
            decision_fields_consistent r)
       \<and> (\<forall>r \<in> set (leave_requests (fst (handleReject requestId reason update_fault d))).
            decision_fields_consistent r)
       \<and> (\<forall>r \<in> set (leave_requests
              (fst (handleSubmit legacy_parse submitter profile formData update_fault new_id now d))).
            decision_fields_consistent r)
       \<and> leave_requests (fst (toggleEmployeeStatus employeeId currentStatus update_fault d))
           = leave_requests d
       \<and> map lr_approved_at (leave_requests (fst (handleReject requestId reason update_fault d)))
           = map lr_approved_at (leave_requests d)
       \<and> map lr_approved_by (leave_requests (fst (handleReject requestId reason update_fault d)))
           = map lr_approved_by (leave_requests d)"
proof -
  have approve: "\<forall>r \<in> set (leave_requests
      (fst (handleApprove requestId user now update_fault d))). decision_fields_consistent r"
  proof (cases "update_fault = NoFault")
    case True
    have "\<forall>r \<in> set (update_eq_id lr_id requestId (approve_values user now)
        (leave_requests d)). decision_fields_consistent r"
      using assms by (intro update_eq_id_all) (simp_all add: approve_values_consistent)
    with True show ?thesis by (simp add: handleApprove_requests)
  next
    case False
    with assms show ?thesis by (simp add: handleApprove_requests)
  qed
  have reject: "\<forall>r \<in> set (leave_requests
      (fst (handleReject requestId reason update_fault d))). decision_fields_consistent r"
  proof (cases reason)
    case None
    with assms show ?thesis by (simp add: handleReject_requests)
  next
    case (Some s)
    have "\<forall>r \<in> set (update_eq_id lr_id requestId (reject_values s) (leave_requests d)).
        decision_fields_consistent r"
      using assms by (intro update_eq_id_all) (simp_all add: reject_values_consistent)
    with Some assms show ?thesis by (simp add: handleReject_requests)
  qed
  have submit: "\<forall>r \<in> set (leave_requests
      (fst (handleSubmit legacy_parse submitter profile formData update_fault new_id now d))).
      decision_fields_consistent r"
    using handleSubmit_requests [of legacy_parse submitter profile formData update_fault
        new_id now d] assms
    by (auto simp: requestPayload_consistent)
  have toggle: "leave_requests (fst (toggleEmployeeStatus employeeId currentStatus update_fault d))
      = leave_requests d"
    by (simp add: toggleEmployeeStatus_def split: fault.split)
  from approve reject submit toggle handleReject_keeps_approval [of requestId reason update_fault d]
  show ?thesis by blast
qed

theorem decisions_keep_fields_consistent_witness:
  "decision_fields_consistent vacation_request
   \<and> map decision_fields_consistent (leave_requests
        (fst (handleApprove ''r-1'' None 1717100000000 NoFault example_db)))
      = [True]
   \<and> map decision_fields_consistent (leave_requests
        (fst (handleReject ''r-1'' (Some ''Busy season'') NoFault
          (fst (handleApprove ''r-1'' (Some admin_user) 1717100000000 NoFault example_db)))))
      = [True]
   \<and> map lr_approved_at (leave_requests
        (fst (handleReject ''r-1'' (Some ''Busy season'') NoFault example_db)))
      = [None]"
proof -
  have consistent: "\<forall>r \<in> set (leave_requests example_db). decision_fields_consistent r"
    by (simp add: example_db_def vacation_request_def decision_fields_consistent_def)
  have approved_too: "\<forall>r \<in> set (leave_requests
      (fst (handleApprove ''r-1'' (Some admin_user) 1717100000000 NoFault example_db))).
      decision_fields_consistent r"
    by (simp add: handleApprove_requests update_eq_id_def example_db_def
        approve_values_consistent vacation_request_def)
  have one: "length (leave_requests
      (fst (handleApprove ''r-1'' None 1717100000000 NoFault example_db))) = 1"
    "length (leave_requests
        (fst (handleReject ''r-1'' (Some ''Busy season'') NoFault
          (fst (handleApprove ''r-1'' (Some admin_user) 1717100000000 NoFault example_db))))) = 1"
    by (simp_all add: handleApprove_requests handleReject_requests update_eq_id_def
        example_db_def split: option.split)
  from decisions_keep_fields_consistent [OF consistent, where requestId = "''r-1''"
      and user = None and now = 1717100000000 and update_fault = NoFault
      and reason = "Some ''Busy season''"]
    decisions_keep_fields_consistent [OF approved_too, where requestId = "''r-1''"
      and update_fault = NoFault and reason = "Some ''Busy season''"]
    consistent one
  show ?thesis
    by (auto simp: length_Suc_conv example_db_def vacation_request_def)
qed

text \<open>
  Against claim C8 as stated, four calls that the code accepts. A reject of the pending
  request leaves it rejected with no decision time. A reject of the approved request
  leaves it rejected with its approver and approval time. An approval with no user signed
  in leaves the request approved with no approver. An approval of the rejected request
  leaves it approved with its rejection reason.
\<close>

theorem reject_records_no_time:
  "map lr_status (leave_requests
      (fst (handleReject ''r-1'' (Some ''Busy season'') NoFault example_db))) = [rejected]
   \<and> map lr_approved_at (leave_requests
      (fst (handleReject ''r-1'' (Some ''Busy season'') NoFault example_db))) = [None]
   \<and> map lr_status (leave_requests
      (fst (handleReject ''r-1'' (Some ''Busy season'') NoFault
        (fst (handleApprove ''r-1'' (Some admin_user) 1717100000000 NoFault example_db)))))
      = [rejected]
   \<and> map lr_approved_by (leave_requests
      (fst (handleReject ''r-1'' (Some ''Busy season'') NoFault
        (fst (handleApprove ''r-1'' (Some admin_user) 1717100000000 NoFault example_db)))))
      = [Some ''a-1'']
   \<and> map lr_status (leave_requests
      (fst (handleApprove ''r-1'' None 1717100000000 NoFault example_db))) = [approved]
   \<and> map lr_approved_by (leave_requests
      (fst (handleApprove ''r-1'' None 1717100000000 NoFault example_db))) = [None]
   \<and> map lr_status (leave_requests
      (fst (handleApprove ''r-1'' (Some admin_user) 1717100000000 NoFault
        (fst (handleReject ''r-1'' (Some ''Busy season'') NoFault example_db)))))
      = [approved]
   \<and> map lr_rejection_reason (leave_requests
      (fst (handleApprove ''r-1'' (Some admin_user) 1717100000000 NoFault
        (fst (handleReject ''r-1'' (Some ''Busy season'') NoFault example_db)))))
      = [Some ''Busy season'']"
proof -
  have "trim ''Busy season'' \<noteq> []"
    by (simp add: trim_def is_whitespace_def)
  then show ?thesis
    by (simp add: handleReject_def handleApprove_def update_eq_id_def example_db_def
        reject_values_def approve_values_def vacation_request_def admin_user_def)
qed

section \<open>Who may do what\<close>

text \<open>
  Claim C7, as the code has it. The checks on the caller are in the views. The dashboard
  page sends a loaded profile that is not active to the login page. For a profile whose
  role is not admin it renders the employee dashboard, which mounts neither the employees
  list nor the list of all requests, and the list of all requests shows such a profile no
  decision buttons. The handlers themselves check neither flag nor role:
  \<open>handleSubmit\<close> gives the same result for any two profiles, and \<open>toggleEmployeeStatus\<close>,
  \<open>handleApprove\<close> and \<open>handleReject\<close> do not take the caller's profile at all; called on
  a table that holds one profile, \<open>toggleEmployeeStatus\<close> flips the active flag of that
  profile once the store accepts the update.
\<close>

lemma toggleEmployeeStatus_profiles:
  "profiles (fst (toggleEmployeeStatus employeeId currentStatus NoFault d)) =
     update_eq_id pr_id employeeId (\<lambda>p. p\<lparr>pr_is_active := \<not> currentStatus\<rparr>) (profiles d)"
  by (simp add: toggleEmployeeStatus_def)

theorem views_gate_the_caller:
  "(\<not> loading \<and> \<not> pr_is_active p \<longrightarrow> Dashboard_effect (Some p) loading = Some ''/auth/login'')
   \<and> (pr_user_role p \<noteq> admin \<longrightarrow>
        Dashboard (Some p) False = ProtectedRoute EmployeeDashboard
        \<and> \<not> decision_buttons showActions (isAdmin (Some p)) request)
   \<and> EmployeesList \<notin> set (mounts EmployeeDashboard)
   \<and> LeaveRequestsList limit showActions \<notin> set (mounts EmployeeDashboard)
   \<and> handleSubmit legacy_parse (Some u) (Some p) formData insert_fault new_id now d
       = handleSubmit legacy_parse (Some u) (Some p') formData insert_fault new_id now d
   \<and> map pr_is_active (profiles (fst (toggleEmployeeStatus (pr_id p) (pr_is_active p) NoFault
          (d\<lparr>profiles := [p]\<rparr>))))
       = [\<not> pr_is_active p]"
  by (simp add: Dashboard_effect_def Dashboard_def isAdmin_def decision_buttons_def
      handleSubmit_def toggleEmployeeStatus_profiles update_eq_id_def)

theorem views_gate_the_caller_witness:
  "\<not> pr_is_active inactive_profile \<and> pr_user_role inactive_profile \<noteq> admin
   \<and> Dashboard_effect (Some inactive_profile) False = Some ''/auth/login''
   \<and> Dashboard (Some inactive_profile) False = ProtectedRoute EmployeeDashboard
   \<and> handleSubmit invalid_date_parse (Some employee_user) (Some inactive_profile) vacation_form
        NoFault ''r-9'' 1717000000000 example_db
      = handleSubmit invalid_date_parse (Some employee_user) (Some employee_profile)
          vacation_form NoFault ''r-9'' 1717000000000 example_db"
proof -
  have inactive: "\<not> pr_is_active inactive_profile" "pr_user_role inactive_profile \<noteq> admin"
    by (simp_all add: inactive_profile_def employee_profile_def)
  from views_gate_the_caller [where loading = False and p = inactive_profile
      and legacy_parse = invalid_date_parse
      and u = employee_user and formData = vacation_form and insert_fault = NoFault
      and new_id = "''r-9''" and now = 1717000000000 and d = example_db
      and p' = employee_profile] inactive
  show ?thesis by simp
qed

text \<open>
  Against claim C7 as stated: the caller's profile is not active, and \<open>handleSubmit\<close>
  stores the request all the same.
\<close>

theorem inactive_caller_submits:
  "pr_is_active inactive_profile = False
   \<and> handleSubmit invalid_date_parse (Some employee_user) (Some inactive_profile) vacation_form
        NoFault ''r-9'' 1717000000000 example_db
      = (example_db\<lparr>leave_requests :=
           [vacation_request, vacation_request\<lparr>lr_id := ''r-9''\<rparr>]\<rparr>, Submitted)"
  by (simp add: inactive_profile_def employee_profile_def handleSubmit_def vacation_form_def
      calculateDays_iso iso_format_def not_positive_def requestPayload_def example_db_def
      vacation_request_def employee_user_def trim_def is_whitespace_def Let_def
      del: calculateDays.simps)

section \<open>Fetching the profile\<close>

lemma basicProfile_fields:
  "pr_user_role (basicProfile u now) = employee"
  "pr_is_active (basicProfile u now)"
  "pr_id (basicProfile u now) = u_id u"
  by (simp_all add: basicProfile_def)

text \<open>
  Claim C9, as the code has it. \<open>fetchProfile\<close> returns a profile or nothing, never an
  error. When the query fails with a table-not-found error (code PGRST116, or a message
  containing "relation" or "does not exist"), it returns nothing: no profile is made up.
  When the query fails with a permission error (code PGRST301, or a message containing
  "permission") that is not also a table-not-found error, and a user is signed in, it
  calls \<open>createBasicProfile\<close>: if the insert of the basic profile fails with an error, the
  result is that basic profile, an object in no table, with the user's id, the role
  employee and the active flag set; if the insert succeeds, the result is the stored row.
  With no signed-in user the result is nothing.
\<close>

theorem fetchProfile_on_errors:
  "(table_missing e \<longrightarrow> fetchProfile (Failed e) currentUser now inserted = None)
   \<and> (\<not> table_missing e \<and> permission_error e \<longrightarrow>
        fetchProfile (Failed e) (Some u) now (Failed e') = Some (basicProfile u now)
        \<and> pr_id (basicProfile u now) = u_id u
        \<and> pr_user_role (basicProfile u now) = employee
        \<and> pr_is_active (basicProfile u now)
        \<and> fetchProfile (Failed e) (Some u) now (Data row) = Some row
        \<and> fetchProfile (Failed e) None now inserted = None)"
  by (simp add: fetchProfile_def createBasicProfile_def basicProfile_fields)

theorem fetchProfile_on_errors_witness:
  "table_missing table_missing_error
   \<and> fetchProfile (Failed table_missing_error) (Some employee_user) 1717100000000
        (Failed permission_denied_error) = None
   \<and> \<not> table_missing permission_denied_error \<and> permission_error permission_denied_error
   \<and> fetchProfile (Failed permission_denied_error) (Some employee_user) 1717100000000
        (Failed permission_denied_error) = Some (basicProfile employee_user 1717100000000)
   \<and> pr_user_role (basicProfile employee_user 1717100000000) = employee"
proof -
  have missing: "table_missing table_missing_error"
    by (simp add: table_missing_def table_missing_error_def)
  have denied: "\<not> table_missing permission_denied_error"
    "permission_error permission_denied_error"
    by (simp_all add: table_missing_def permission_error_def permission_denied_error_def
        message_includes_def)
  from fetchProfile_on_errors [where e = table_missing_error
      and currentUser = "Some employee_user" and now = 1717100000000
      and inserted = "Failed permission_denied_error"]
    fetchProfile_on_errors [where e = permission_denied_error and now = 1717100000000
      and u = employee_user and e' = permission_denied_error]
    missing denied
  show ?thesis by simp
qed

text \<open>
  Against claim C9 as stated: the query fails because the table does not exist, a user is
  signed in, and \<open>fetchProfile\<close> returns no profile at all.
\<close>

theorem missing_table_gives_no_profile:
  "pg_code table_missing_error = ''PGRST116''
   \<and> fetchProfile (Failed table_missing_error) (Some employee_user) 1717100000000
        (Failed permission_denied_error) = None"
  by (simp add: fetchProfile_def table_missing_def table_missing_error_def)

section \<open>Listing all requests\<close>

lemma mset_order_created_at_desc: "mset (order_created_at_desc rows) = mset rows"
  by (simp add: order_created_at_desc_def)

lemma sorted_order_created_at_desc:
  "sorted_wrt (\<lambda>a b. lr_created_at b \<le> lr_created_at a) (order_created_at_desc rows)"
proof -
  have "sorted (map lr_created_at (sort_key lr_created_at rows))"
    by (rule sorted_sort_key)
  then have "sorted_wrt (\<lambda>a b. lr_created_at a \<le> lr_created_at b) (sort_key lr_created_at rows)"
    by (simp add: sorted_map)
  then show ?thesis
    by (simp add: order_created_at_desc_def sorted_wrt_rev)
qed

lemma fetchLeaveRequests_listing:
  assumes "profiles_fault \<noteq> Throws"
  shows "\<exists>profilesData. fetchLeaveRequests limit NoFault profiles_fault d =
     (map (transform profilesData) (select_leave_requests (limit_or_100 limit) d), None)"
proof (cases "select_leave_requests (limit_or_100 limit) d = []")
  case True
  then show ?thesis by (simp add: fetchLeaveRequests_def)
next
  case False
  show ?thesis
  proof (cases profiles_fault)
    case NoFault
    with False show ?thesis by (auto simp: fetchLeaveRequests_def Let_def)
  next
    case (Error e)
    with False show ?thesis by (auto simp: fetchLeaveRequests_def Let_def)
  next
    case Throws
    with assms show ?thesis by simp
  qed
qed

text \<open>
  Claim C10. Called without a limit, with both queries answered, \<open>fetchLeaveRequests\<close>
  sets no error and lists at most 100 requests: the table put in an order of
  \<open>created_at\<close> that never ascends, cut after its first 100 rows, each row shown with the
  employee found for it. The rows after the first 100 of that order are not listed.
\<close>

theorem list_newest_hundred:
  assumes "profiles_fault \<noteq> Throws"
  shows "\<exists>ys profilesData.
      mset ys = mset (leave_requests d)
      \<and> sorted_wrt (\<lambda>a b. lr_created_at b \<le> lr_created_at a) ys
      \<and> fetchLeaveRequests None NoFault profiles_fault d
          = (map (transform profilesData) (take 100 ys), None)
      \<and> length (fst (fetchLeaveRequests None NoFault profiles_fault d))
          = min 100 (length (leave_requests d))"
proof -
  from fetchLeaveRequests_listing [OF assms, of None d]
  obtain profilesData where listing: "fetchLeaveRequests None NoFault profiles_fault d =
      (map (transform profilesData) (take 100 (order_created_at_desc (leave_requests d))), None)"
    by (auto simp: select_leave_requests_def limit_or_100_def)
  have "length (order_created_at_desc (leave_requests d)) = length (leave_requests d)"
    by (simp add: order_created_at_desc_def)
  then have "length (fst (fetchLeaveRequests None NoFault profiles_fault d))
      = min 100 (length (leave_requests d))"
    by (simp add: listing min.commute)
  with listing mset_order_created_at_desc sorted_order_created_at_desc show ?thesis
    by blast
qed

theorem list_newest_hundred_witness:
  "NoFault \<noteq> Throws
   \<and> map lr_created_at (leave_requests two_requests_db) = [1717000000000, 1718000000000]
   \<and> map li_created_at (fst (fetchLeaveRequests None NoFault NoFault two_requests_db))
       = [1718000000000, 1717000000000]
   \<and> length (fst (fetchLeaveRequests None NoFault NoFault two_requests_db)) = 2
   \<and> length (leave_requests crowded_db) = 101
   \<and> length (fst (fetchLeaveRequests None NoFault NoFault crowded_db)) = 100"
proof -
  have ok: "NoFault \<noteq> Throws" by simp
  have "map li_created_at (fst (fetchLeaveRequests None NoFault NoFault two_requests_db))
       = [1718000000000, 1717000000000]"
    by (simp add: fetchLeaveRequests_def select_leave_requests_def limit_or_100_def
        order_created_at_desc_def two_requests_db_def vacation_request_def long_request_def
        transform_def Let_def)
  with list_newest_hundred [OF ok, of two_requests_db]
    list_newest_hundred [OF ok, of crowded_db]
  show ?thesis
    by (auto simp: two_requests_db_def crowded_db_def vacation_request_def long_request_def)
qed

end
